theory Spec2Isabelle
  imports Main
begin

section \<open>Host-language values\<close>

text \<open>
  Strings are byte strings (the UTF-8 form of the script's strings).
\<close>

subsection \<open>Decimal numerals\<close>

definition digit :: "int \<Rightarrow> char" where
  "digit d = char_of (48 + d)"

text \<open>The decimal numeral of a natural number, and of an integer.\<close>

function digits :: "int \<Rightarrow> string" where
  "digits n = (if n < 10 then [digit n] else digits (n div 10) @ [digit (n mod 10)])"
  by pat_completeness auto
termination
  by (relation "measure nat") auto

declare digits.simps [simp del]

definition decimal :: "int \<Rightarrow> string" where
  "decimal n = (if n < 0 then CHR ''-'' # digits (- n) else digits n)"

subsection \<open>Numbers\<close>

text \<open>
  A number of the host is a double: not-a-number, an infinity, the negative zero, or a
  finite value \<open>m * 2^e\<close>, written \<open>Finite m e\<close> (the integer \<open>n\<close> is \<open>Finite n 0\<close>; a
  double has \<open>\<bar>m\<bar> < 2^53\<close>). The source does two things with a number: it tests it for
  truthiness, and it converts it to a string.
\<close>

datatype number = Finite int int | NegZero | NaN | PosInfinity | NegInfinity

text \<open>The integer that a number is, if it is one.\<close>

fun integral :: "number \<Rightarrow> int option" where
  "integral (Finite m e) =
     (if 0 \<le> e then Some (m * 2 ^ nat e)
      else if m mod 2 ^ nat (- e) = 0 then Some (m div 2 ^ nat (- e))
      else None)"
| "integral NegZero = None"
| "integral NaN = None"
| "integral PosInfinity = None"
| "integral NegInfinity = None"

definition MAX_SAFE_INTEGER :: int where
  "MAX_SAFE_INTEGER = 9007199254740991"

text \<open>
  The number-to-string conversion of the host (\<open>toString()\<close> on a number, a number in a
  template literal). An integer of magnitude up to \<open>2^53 - 1\<close> is written as its decimal
  numeral, with a minus sign when negative; the special values have fixed names. For every
  other finite value (a fraction, an integer from \<open>2^53\<close> upward) the host writes the
  shortest digits that read back as the same double, in exponent form from \<open>10^21\<close>: that
  part of the host is the parameter \<open>shortest\<close>.
\<close>

type_synonym printer = "number \<Rightarrow> string"

fun Number_toString :: "printer \<Rightarrow> number \<Rightarrow> string" where
  "Number_toString shortest (Finite m e) =
     (case integral (Finite m e) of
        Some n \<Rightarrow> if \<bar>n\<bar> \<le> MAX_SAFE_INTEGER then decimal n else shortest (Finite m e)
      | None \<Rightarrow> shortest (Finite m e))"
| "Number_toString shortest NegZero = ''0''"
| "Number_toString shortest NaN = ''NaN''"
| "Number_toString shortest PosInfinity = ''Infinity''"
| "Number_toString shortest NegInfinity = ''-Infinity''"

subsection \<open>Truthiness\<close>

text \<open>
  Truthiness, as the conditional operator and \<open>if\<close> test it: an absent (undefined) value
  is falsy, the empty string is falsy, and the numbers zero, negative zero and
  not-a-number are falsy.
\<close>

definition truthy_string :: "string option \<Rightarrow> bool" where
  "truthy_string v = (case v of None \<Rightarrow> False | Some s \<Rightarrow> s \<noteq> [])"

fun falsy :: "number \<Rightarrow> bool" where
  "falsy (Finite m e) = (m = 0)"
| "falsy NegZero = True"
| "falsy NaN = True"
| "falsy PosInfinity = False"
| "falsy NegInfinity = False"

definition truthy_number :: "number option \<Rightarrow> bool" where
  "truthy_number v = (case v of None \<Rightarrow> False | Some x \<Rightarrow> \<not> falsy x)"

subsection \<open>Objects and the order of their keys\<close>

text \<open>
  An object whose order of keys matters is the list of its properties in the order of
  their creation, each key once. \<open>Object.entries\<close> enumerates the keys that are array
  indices first, in ascending numeric order, then the other keys in the order of their
  creation. A key is an array index when it is the decimal numeral, without leading
  zeros, of an integer from \<open>0\<close> to \<open>2^32 - 2\<close>.
\<close>

definition is_digit :: "char \<Rightarrow> bool" where
  "is_digit c = (c \<in> set ''0123456789'')"

definition digits_value :: "string \<Rightarrow> int" where
  "digits_value s = foldl (\<lambda>n c. 10 * n + (of_char c - 48)) 0 s"

definition array_index :: "string \<Rightarrow> int option" where
  "array_index key =
     (if key \<noteq> [] \<and> list_all is_digit key \<and> digits (digits_value key) = key
         \<and> digits_value key \<le> 4294967294
      then Some (digits_value key) else None)"

definition index_key :: "string \<times> 'v \<Rightarrow> int" where
  "index_key p = (case array_index (fst p) of Some n \<Rightarrow> n | None \<Rightarrow> 0)"

definition Object_entries :: "(string \<times> 'v) list \<Rightarrow> (string \<times> 'v) list" where
  "Object_entries obj =
     sort_key index_key (filter (\<lambda>p. array_index (fst p) \<noteq> None) obj)
     @ filter (\<lambda>p. array_index (fst p) = None) obj"

section \<open>The transport and what a call leaves behind\<close>

text \<open>
  \<open>ApiClientOptions\<close>: the request configuration. Each field is optional; \<open>headers\<close> is a
  string-keyed object, modelled as a map, and object spread \<open>{...a, ...b}\<close> is \<open>a ++ b\<close>.
\<close>

record ApiClientOptions =
  headers :: "(string \<rightharpoonup> string) option"
  body :: "string option"
  "method" :: "string option"

definition no_options :: ApiClientOptions where
  "no_options = \<lparr>headers = None, body = None, method = None\<rparr>"

text \<open>
  The response object of the transport: its success flag, its numeric status, and the
  outcome of awaiting its \<open>json()\<close> operation, which either throws a value of the
  transport's (\<open>Inl\<close>) or yields the decoded body (\<open>Inr\<close>).
\<close>

record ('x, 't) Response =
  ok :: bool
  status :: number
  json :: "'x + 't"

text \<open>
  \<open>fetch\<close> is an external collaborator: from the full URL and the configuration it either
  throws a value of its own or yields a response.
\<close>

type_synonym ('x, 't) transport = "string \<Rightarrow> ApiClientOptions \<Rightarrow> 'x + ('x, 't) Response"

text \<open>
  What a rejected call carries: the \<open>Error\<close> object constructed by \<open>apiClient\<close> itself, with
  its message, or a value thrown by the transport or its decoder, passed on as it is.
\<close>

datatype 'x thrown = Error string | Thrown 'x

text \<open>
  The observable effects of a call, in the order they happen: a request handed to the
  transport, a line written to the diagnostic stream.
\<close>

datatype 'x event =
    Fetch string ApiClientOptions
  | ConsoleError string "'x thrown"

fun requests :: "'x event list \<Rightarrow> (string \<times> ApiClientOptions) list" where
  "requests [] = []"
| "requests (Fetch url cfg # es) = (url, cfg) # requests es"
| "requests (ConsoleError _ _ # es) = requests es"

fun logged :: "'x event list \<Rightarrow> (string \<times> 'x thrown) list" where
  "logged [] = []"
| "logged (Fetch _ _ # es) = logged es"
| "logged (ConsoleError label e # es) = (label, e) # logged es"

section \<open>services/apiClient.ts\<close>

definition BASE_URL :: string where
  "BASE_URL = ''https://jsonplaceholder.typicode.com''"

text \<open>The local constant \<open>config\<close> of \<open>apiClient\<close>: the options with the merged headers.\<close>

definition config :: "ApiClientOptions \<Rightarrow> string option \<Rightarrow> ApiClientOptions" where
  "config options authToken =
     options\<lparr>headers := Some
       ([''Content-Type'' \<mapsto> ''application/json'']
        ++ (case headers options of None \<Rightarrow> Map.empty | Some h \<Rightarrow> h)
        ++ (if truthy_string authToken
            then [''Authorization'' \<mapsto> ''Bearer '' @ the authToken]
            else Map.empty))\<rparr>"

text \<open>
  \<open>apiClient\<close>, with the host's printer and the transport as parameters and the events so
  far threaded through. The \<open>try\<close> block is \<open>attempt\<close>; the \<open>catch\<close> block logs what was
  thrown and throws it again.
\<close>

definition attempt ::
  "printer \<Rightarrow> ('x, 't) transport \<Rightarrow> string \<Rightarrow> ApiClientOptions \<Rightarrow> 'x thrown + 't" where
  "attempt shortest fetch url cfg =
     (case fetch url cfg of
        Inl e \<Rightarrow> Inl (Thrown e)
      | Inr response \<Rightarrow>
          if \<not> ok response
          then Inl (Error (''HTTP error! Status: '' @ Number_toString shortest (status response)))
          else (case json response of
                  Inl e \<Rightarrow> Inl (Thrown e)
                | Inr data \<Rightarrow> Inr data))"

definition apiClient ::
  "printer \<Rightarrow> ('x, 't) transport \<Rightarrow> string \<Rightarrow> ApiClientOptions \<Rightarrow> string option \<Rightarrow>
     'x event list \<Rightarrow> ('x thrown + 't) \<times> 'x event list" where
  "apiClient shortest fetch endpoint options authToken tr =
     (let cfg = config options authToken;
          url = BASE_URL @ endpoint;
          tr' = tr @ [Fetch url cfg]
      in case attempt shortest fetch url cfg of
           Inl error \<Rightarrow> (Inl error, tr' @ [ConsoleError ''API call failed:'' error])
         | Inr data \<Rightarrow> (Inr data, tr'))"

text \<open>\<open>fetchData\<close>: the search term defaults to the empty string.\<close>

definition fetchData ::
  "printer \<Rightarrow> ('x, 't) transport \<Rightarrow> string \<Rightarrow> string \<Rightarrow> string option \<Rightarrow>
     'x event list \<Rightarrow> ('x thrown + 't) \<times> 'x event list" where
  "fetchData shortest fetch resource searchField searchTerm tr =
     (let term = (case searchTerm of None \<Rightarrow> [] | Some t \<Rightarrow> t);
          endpoint = (if term \<noteq> []
                      then ''/'' @ resource @ ''?'' @ searchField @ ''_like='' @ term
                      else ''/'' @ resource)
      in apiClient shortest fetch endpoint no_options None tr)"

subsection \<open>The query-string builder of the host\<close>

text \<open>
  \<open>URLSearchParams\<close> is a list of name-value pairs; \<open>append\<close> adds a pair at the end and
  \<open>toString\<close> is the \<open>application/x-www-form-urlencoded\<close> serialiser of the URL standard:
  pairs joined by \<open>&\<close>, name and value joined by \<open>=\<close>, a space written as \<open>+\<close>, the
  bytes \<open>* - . _\<close>, digits and ASCII letters written as they are, every other byte as
  \<open>%\<close> and two upper-case hexadecimal digits.
\<close>

type_synonym URLSearchParams = "(string \<times> string) list"

definition append_param :: "URLSearchParams \<Rightarrow> string \<Rightarrow> string \<Rightarrow> URLSearchParams" where
  "append_param q name val = q @ [(name, val)]"

definition urlencoded_plain :: "char \<Rightarrow> bool" where
  "urlencoded_plain c =
     (c \<in> set ''ABCDEFGHIJKLMNOPQRSTUVWXYZabcdefghijklmnopqrstuvwxyz0123456789*-._'')"

definition hex_digit :: "nat \<Rightarrow> char" where
  "hex_digit d = (if d < 10 then char_of (48 + d) else char_of (55 + d))"

definition urlencode_byte :: "char \<Rightarrow> string" where
  "urlencode_byte c =
     (if c = CHR '' '' then ''+''
      else if urlencoded_plain c then [c]
      else [CHR ''%'', hex_digit (of_char c div 16), hex_digit (of_char c mod 16)])"

definition urlencode :: "string \<Rightarrow> string" where
  "urlencode s = concat (map urlencode_byte s)"

fun join_amp :: "string list \<Rightarrow> string" where
  "join_amp [] = []"
| "join_amp [p] = p"
| "join_amp (p # ps) = p @ ''&'' @ join_amp ps"

definition URLSearchParams_toString :: "URLSearchParams \<Rightarrow> string" where
  "URLSearchParams_toString q =
     join_amp (map (\<lambda>(name, val). urlencode name @ ''='' @ urlencode val) q)"

subsection \<open>Filtered retrieval\<close>

datatype sort_order = asc | desc

fun sort_order_string :: "sort_order \<Rightarrow> string" where
  "sort_order_string asc = ''asc''"
| "sort_order_string desc = ''desc''"

record FilterOptions =
  sortBy :: "string option"
  order :: "sort_order option"
  limit :: "number option"
  start :: "number option"

text \<open>A filter value is a string or a number; \<open>value.toString()\<close> is its string form.\<close>

datatype scalar = Str string | Num number

fun scalar_toString :: "printer \<Rightarrow> scalar \<Rightarrow> string" where
  "scalar_toString shortest (Str s) = s"
| "scalar_toString shortest (Num n) = Number_toString shortest n"

text \<open>
  The parameters that \<open>fetchFilteredData\<close> collects. The filter object is the list of its
  properties in the order of their creation; the loop runs over \<open>Object.entries\<close> of it.
\<close>

definition queryParams ::
  "printer \<Rightarrow> (string \<times> scalar) list \<Rightarrow> FilterOptions \<Rightarrow> URLSearchParams" where
  "queryParams shortest filters options =
     (let q0 = fold (\<lambda>(field, val) q. append_param q field (scalar_toString shortest val))
                 (Object_entries filters) [];
          q1 = (if truthy_string (sortBy options)
                then append_param q0 ''_sort'' (the (sortBy options)) else q0);
          q2 = (if order options \<noteq> None
                then append_param q1 ''_order'' (sort_order_string (the (order options))) else q1);
          q3 = (if truthy_number (limit options)
                then append_param q2 ''_limit'' (Number_toString shortest (the (limit options)))
                else q2);
          q4 = (if truthy_number (start options)
                then append_param q3 ''_start'' (Number_toString shortest (the (start options)))
                else q3)
      in q4)"

definition fetchFilteredData ::
  "printer \<Rightarrow> ('x, 't) transport \<Rightarrow> string \<Rightarrow> (string \<times> scalar) list \<Rightarrow> FilterOptions \<Rightarrow>
     'x event list \<Rightarrow> ('x thrown + 't) \<times> 'x event list" where
  "fetchFilteredData shortest fetch resource filters options tr =
     (let endpoint = ''/'' @ resource @ ''?'' @
            URLSearchParams_toString (queryParams shortest filters options)
      in apiClient shortest fetch endpoint no_options None tr)"

definition no_filter_options :: FilterOptions where
  "no_filter_options = \<lparr>sortBy = None, order = None, limit = None, start = None\<rparr>"

section \<open>services/userService.ts\<close>

text \<open>\<open>deleteUser\<close> awaits the call and returns nothing.\<close>

definition deleteUser ::
  "printer \<Rightarrow> ('x, 't) transport \<Rightarrow> number \<Rightarrow> string option \<Rightarrow>
     'x event list \<Rightarrow> ('x thrown + unit) \<times> 'x event list" where
  "deleteUser shortest fetch userId authToken tr =
     (case apiClient shortest fetch (''/users/'' @ Number_toString shortest userId)
             \<lparr>headers = None, body = None, method = Some ''DELETE''\<rparr> authToken tr of
        (Inl error, tr') \<Rightarrow> (Inl error, tr')
      | (Inr data, tr') \<Rightarrow> (Inr (), tr'))"

section \<open>Sample collaborators\<close>

text \<open>
  A transport that answers every request with one response, one that always throws, and
  a printer for the examples, none of which reaches it.
\<close>

definition respond :: "bool \<Rightarrow> number \<Rightarrow> 'x + 't \<Rightarrow> ('x, 't) transport" where
  "respond flag code decoded = (\<lambda>url cfg. Inr \<lparr>ok = flag, status = code, json = decoded\<rparr>)"

definition refuse :: "'x \<Rightarrow> ('x, 't) transport" where
  "refuse e = (\<lambda>url cfg. Inl e)"

definition unused_printer :: printer where
  "unused_printer x = ''?''"

section \<open>Basic facts\<close>

lemma requests_append: "requests (es @ fs) = requests es @ requests fs"
  by (induction es rule: requests.induct) simp_all

lemma logged_append: "logged (es @ fs) = logged es @ logged fs"
  by (induction es rule: logged.induct) simp_all

lemma apiClient_events:
  "snd (apiClient shortest fetch endpoint options authToken tr) =
     tr @ Fetch (BASE_URL @ endpoint) (config options authToken) #
       (case attempt shortest fetch (BASE_URL @ endpoint) (config options authToken) of
          Inl error \<Rightarrow> [ConsoleError ''API call failed:'' error]
        | Inr data \<Rightarrow> [])"
  by (simp add: apiClient_def Let_def split: sum.split)

lemma apiClient_result:
  "fst (apiClient shortest fetch endpoint options authToken tr) =
     attempt shortest fetch (BASE_URL @ endpoint) (config options authToken)"
  by (simp add: apiClient_def Let_def split: sum.split)

lemma apiClient_requests:
  "requests (snd (apiClient shortest fetch endpoint options authToken tr)) =
     requests tr @ [(BASE_URL @ endpoint, config options authToken)]"
  by (simp add: apiClient_events requests_append split: sum.split)

lemma fold_append_param:
  "fold (\<lambda>(field, val) q. append_param q field (f val)) entries q =
     q @ map (\<lambda>(field, val). (field, f val)) entries"
  by (induction entries arbitrary: q) (auto simp: append_param_def)

lemma Object_entries_plain:
  assumes "\<forall>p \<in> set obj. array_index (fst p) = None"
  shows "Object_entries obj = obj"
proof -
  have "filter (\<lambda>p. array_index (fst p) \<noteq> None) obj = []"
    using assms by (simp add: filter_empty_conv)
  moreover have "filter (\<lambda>p. array_index (fst p) = None) obj = obj"
    using assms by (simp add: filter_id_conv)
  ultimately show ?thesis
    by (simp add: Object_entries_def)
qed

lemma safe_integer_decimal:
  "\<bar>n\<bar> \<le> MAX_SAFE_INTEGER \<Longrightarrow> Number_toString shortest (Finite n 0) = decimal n"
  by simp

lemma status_404: "Number_toString shortest (Finite 404 0) = ''404''"
  by code_simp

lemma status_500: "Number_toString shortest (Finite 500 0) = ''500''"
  by code_simp

lemma id_7: "Number_toString shortest (Finite 7 0) = ''7''"
  by code_simp

lemma config_plain:
  "config no_options None =
     \<lparr>headers = Some [''Content-Type'' \<mapsto> ''application/json''], body = None, method = None\<rparr>"
  by (simp add: config_def no_options_def truthy_string_def)

section \<open>The request executor\<close>

text \<open>
  C1. When the transport yields a response whose success flag is true and whose decoder
  yields a body, the call resolves to that very body, and nothing is written to the
  diagnostic stream.
\<close>

theorem apiClient_resolves_body:
  assumes "fetch (BASE_URL @ endpoint) (config options authToken) = Inr response"
    and "ok response"
    and "json response = Inr data"
  shows "apiClient shortest fetch endpoint options authToken tr =
           (Inr data, tr @ [Fetch (BASE_URL @ endpoint) (config options authToken)])"
  using assms by (simp add: apiClient_def attempt_def)

theorem apiClient_resolves_body_witness:
  "apiClient unused_printer
      (respond True (Finite 200 0) (Inr (Str ''Leanne'')) :: (unit, scalar) transport)
      ''/users/1'' no_options None [] =
     (Inr (Str ''Leanne''),
      [Fetch ''https://jsonplaceholder.typicode.com/users/1'' (config no_options None)])"
  using apiClient_resolves_body
    [of "respond True (Finite 200 0) (Inr (Str ''Leanne'')) :: (unit, scalar) transport"
        "''/users/1''" no_options None
        "\<lparr>ok = True, status = Finite 200 0, json = Inr (Str ''Leanne'')\<rparr>" "Str ''Leanne''"
        unused_printer "[]"]
  by (simp add: respond_def BASE_URL_def)

text \<open>
  C2. When the transport yields a response whose success flag is false, with status \<open>S\<close>,
  the call rejects with the error whose message is \<open>HTTP error! Status: \<close> followed by the
  string form of \<open>S\<close>; when the flag is true, the call rejects with no error of
  \<open>apiClient\<close>'s own making, whatever its message.
\<close>

theorem apiClient_status_error:
  assumes "fetch (BASE_URL @ endpoint) (config options authToken) = Inr response"
  shows "(\<not> ok response \<longrightarrow>
            fst (apiClient shortest fetch endpoint options authToken tr) =
              Inl (Error (''HTTP error! Status: '' @ Number_toString shortest (status response))))
       \<and> (ok response \<longrightarrow>
            fst (apiClient shortest fetch endpoint options authToken tr) \<noteq> Inl (Error message))"
  using assms by (simp add: apiClient_result attempt_def split: sum.split)

theorem apiClient_status_error_witness:
  "fst (apiClient unused_printer
          (respond False (Finite 404 0) (Inr (Str ''{}'')) :: (unit, scalar) transport)
          ''/users/99'' no_options None []) =
     Inl (Error ''HTTP error! Status: 404'')
   \<and> fst (apiClient unused_printer
          (respond True (Finite 200 0) (Inl ()) :: (unit, scalar) transport)
          ''/users/99'' no_options None []) \<noteq>
     Inl (Error ''HTTP error! Status: 200'')"
  using apiClient_status_error
    [of "respond False (Finite 404 0) (Inr (Str ''{}'')) :: (unit, scalar) transport"
        "''/users/99''" no_options None
        "\<lparr>ok = False, status = Finite 404 0, json = Inr (Str ''{}'')\<rparr>" unused_printer "[]"]
    apiClient_status_error
    [of "respond True (Finite 200 0) (Inl ()) :: (unit, scalar) transport"
        "''/users/99''" no_options None
        "\<lparr>ok = True, status = Finite 200 0, json = Inl ()\<rparr>" unused_printer "[]"
        "''HTTP error! Status: 200''"]
  by (simp add: respond_def status_404 del: Number_toString.simps)

text \<open>
  C3, as amended. The request handed to the transport carries the merged headers: under
  the name \<open>Authorization\<close> the value \<open>Bearer \<close> followed by the token, whatever the caller
  supplied under that name, exactly when a token was passed and is not the empty string;
  under every other name, and under \<open>Authorization\<close> when no token or the empty token was
  passed, the caller's header if there is one; failing that, \<open>application/json\<close> under
  \<open>Content-Type\<close> and nothing under any other name. As stated, with "a token was passed"
  where the test is truthiness, the claim fails at the empty token.
\<close>

theorem apiClient_headers:
  "requests (snd (apiClient shortest fetch endpoint options authToken tr)) =
     requests tr @ [(BASE_URL @ endpoint, config options authToken)]
   \<and> headers (config options authToken) \<noteq> None
   \<and> the (headers (config options authToken)) name =
       (if truthy_string authToken \<and> name = ''Authorization''
        then Some (''Bearer '' @ the authToken)
        else case (case headers options of None \<Rightarrow> Map.empty | Some h \<Rightarrow> h) name of
               Some v \<Rightarrow> Some v
             | None \<Rightarrow> if name = ''Content-Type'' then Some ''application/json'' else None)"
  by (simp add: apiClient_requests config_def map_add_def split: option.split)

theorem apiClient_headers_witness:
  "the (headers (config
      \<lparr>headers = Some [''Authorization'' \<mapsto> ''Basic abc'', ''Content-Type'' \<mapsto> ''text/plain''],
       body = None, method = None\<rparr> (Some ''s3cret''))) ''Authorization'' = Some ''Bearer s3cret''
   \<and> the (headers (config
      \<lparr>headers = Some [''Authorization'' \<mapsto> ''Basic abc'', ''Content-Type'' \<mapsto> ''text/plain''],
       body = None, method = None\<rparr> (Some ''s3cret''))) ''Content-Type'' = Some ''text/plain''
   \<and> the (headers (config
      \<lparr>headers = Some [''Authorization'' \<mapsto> ''Basic abc''],
       body = None, method = None\<rparr> None)) ''Authorization'' = Some ''Basic abc''
   \<and> the (headers (config no_options None)) ''Content-Type'' = Some ''application/json''
   \<and> the (headers (config no_options None)) ''Authorization'' = None"
proof -
  let ?both = "\<lparr>headers = Some [''Authorization'' \<mapsto> ''Basic abc'', ''Content-Type'' \<mapsto> ''text/plain''],
                 body = None, method = None\<rparr>"
  let ?auth = "\<lparr>headers = Some [''Authorization'' \<mapsto> ''Basic abc''], body = None, method = None\<rparr>"
  let ?fetch = "refuse () :: (unit, scalar) transport"
  have a: "the (headers (config ?both (Some ''s3cret''))) ''Authorization'' = Some ''Bearer s3cret''"
    using apiClient_headers
      [of unused_printer ?fetch "''/users''" ?both "Some ''s3cret''" "[]" "''Authorization''"]
    by (simp add: truthy_string_def)
  have b: "the (headers (config ?both (Some ''s3cret''))) ''Content-Type'' = Some ''text/plain''"
    using apiClient_headers
      [of unused_printer ?fetch "''/users''" ?both "Some ''s3cret''" "[]" "''Content-Type''"]
    by (simp add: truthy_string_def)
  have c: "the (headers (config ?auth None)) ''Authorization'' = Some ''Basic abc''"
    using apiClient_headers
      [of unused_printer ?fetch "''/users''" ?auth None "[]" "''Authorization''"]
    by (simp add: truthy_string_def)
  have d: "the (headers (config no_options None)) ''Content-Type'' = Some ''application/json''"
    using apiClient_headers
      [of unused_printer ?fetch "''/users''" no_options None "[]" "''Content-Type''"]
    by (simp add: truthy_string_def no_options_def)
  have e: "the (headers (config no_options None)) ''Authorization'' = None"
    using apiClient_headers
      [of unused_printer ?fetch "''/users''" no_options None "[]" "''Authorization''"]
    by (simp add: truthy_string_def no_options_def)
  from a b c d e show ?thesis by blast
qed

theorem apiClient_headers_empty_token_counterexample:
  "the (headers (config no_options (Some ''''))) ''Authorization'' \<noteq> Some (''Bearer '' @ '''')
   \<and> the (headers (config
      \<lparr>headers = Some [''Authorization'' \<mapsto> ''Basic abc''], body = None, method = None\<rparr>
      (Some ''''))) ''Authorization'' = Some ''Basic abc''"
  by (simp add: config_def no_options_def truthy_string_def)

text \<open>
  C7. Every failure of the call is logged and thrown again as it is: a value thrown by
  the transport, the status error, and a value thrown by the decoder each end the call
  rejected with that very value, the events of the call being the request followed by one
  line on the diagnostic stream that holds the same value. Whatever the call rejects
  with, it logged; no failing path resolves.
\<close>

theorem apiClient_failure_logged_rethrown:
  "(fetch (BASE_URL @ endpoint) (config options authToken) = Inl e \<longrightarrow>
      apiClient shortest fetch endpoint options authToken tr =
        (Inl (Thrown e),
         tr @ [Fetch (BASE_URL @ endpoint) (config options authToken),
               ConsoleError ''API call failed:'' (Thrown e)]))
   \<and> (fetch (BASE_URL @ endpoint) (config options authToken) = Inr response \<and> \<not> ok response \<longrightarrow>
      apiClient shortest fetch endpoint options authToken tr =
        (Inl (Error (''HTTP error! Status: '' @ Number_toString shortest (status response))),
         tr @ [Fetch (BASE_URL @ endpoint) (config options authToken),
               ConsoleError ''API call failed:''
                 (Error (''HTTP error! Status: '' @ Number_toString shortest (status response)))]))
   \<and> (fetch (BASE_URL @ endpoint) (config options authToken) = Inr response \<and> ok response
        \<and> json response = Inl e \<longrightarrow>
      apiClient shortest fetch endpoint options authToken tr =
        (Inl (Thrown e),
         tr @ [Fetch (BASE_URL @ endpoint) (config options authToken),
               ConsoleError ''API call failed:'' (Thrown e)]))
   \<and> (fst (apiClient shortest fetch endpoint options authToken tr) = Inl err \<longrightarrow>
      snd (apiClient shortest fetch endpoint options authToken tr) =
        tr @ [Fetch (BASE_URL @ endpoint) (config options authToken),
              ConsoleError ''API call failed:'' err])"
  by (auto simp: apiClient_def attempt_def Let_def split: sum.splits)

theorem apiClient_failure_logged_rethrown_witness:
  "apiClient unused_printer (refuse ''ECONNRESET'' :: (string, scalar) transport)
        ''/users'' no_options None [] =
     (Inl (Thrown ''ECONNRESET''),
      [Fetch ''https://jsonplaceholder.typicode.com/users'' (config no_options None),
       ConsoleError ''API call failed:'' (Thrown ''ECONNRESET'')])
   \<and> apiClient unused_printer
        (respond False (Finite 500 0) (Inr (Str ''oops'')) :: (string, scalar) transport)
        ''/users'' no_options None [] =
     (Inl (Error ''HTTP error! Status: 500''),
      [Fetch ''https://jsonplaceholder.typicode.com/users'' (config no_options None),
       ConsoleError ''API call failed:'' (Error ''HTTP error! Status: 500'')])
   \<and> apiClient unused_printer
        (respond True (Finite 200 0) (Inl ''Unexpected token'') :: (string, scalar) transport)
        ''/users'' no_options None [] =
     (Inl (Thrown ''Unexpected token''),
      [Fetch ''https://jsonplaceholder.typicode.com/users'' (config no_options None),
       ConsoleError ''API call failed:'' (Thrown ''Unexpected token'')])
   \<and> snd (apiClient unused_printer (refuse ''ECONNRESET'' :: (string, scalar) transport)
        ''/users'' no_options None []) =
      [Fetch ''https://jsonplaceholder.typicode.com/users'' (config no_options None),
       ConsoleError ''API call failed:'' (Thrown ''ECONNRESET'')]"
  using apiClient_failure_logged_rethrown
    [of "refuse ''ECONNRESET'' :: (string, scalar) transport" "''/users''" no_options None
        "''ECONNRESET''" unused_printer "[]"
        "\<lparr>ok = False, status = Finite 500 0, json = Inr (Str ''oops'')\<rparr>"
        "Thrown ''ECONNRESET''"]
    apiClient_failure_logged_rethrown
    [of "respond False (Finite 500 0) (Inr (Str ''oops'')) :: (string, scalar) transport"
        "''/users''" no_options None "''x''" unused_printer "[]"
        "\<lparr>ok = False, status = Finite 500 0, json = Inr (Str ''oops'')\<rparr>" "Thrown ''x''"]
    apiClient_failure_logged_rethrown
    [of "respond True (Finite 200 0) (Inl ''Unexpected token'') :: (string, scalar) transport"
        "''/users''" no_options None "''Unexpected token''" unused_printer "[]"
        "\<lparr>ok = True, status = Finite 200 0, json = Inl ''Unexpected token''\<rparr>" "Thrown ''x''"]
  by (simp add: respond_def refuse_def BASE_URL_def status_500 del: Number_toString.simps)

section \<open>The query builders\<close>

text \<open>
  C6. With no search term, or with the empty one, \<open>fetchData\<close> requests the bare path of the
  resource; with a search term \<open>t\<close> that is not empty it requests the path followed by
  \<open>?\<close>, the field, \<open>_like=\<close> and \<open>t\<close>, nothing being encoded. So \<open>fetchData("users", "name")\<close>
  requests \<open>/users\<close> and \<open>fetchData("users", "name", "Lea")\<close> requests
  \<open>/users?name_like=Lea\<close>.
\<close>

theorem fetchData_endpoint:
  "requests (snd (fetchData shortest fetch resource searchField None tr)) =
     requests tr @ [(BASE_URL @ ''/'' @ resource, config no_options None)]
   \<and> requests (snd (fetchData shortest fetch resource searchField (Some []) tr)) =
     requests tr @ [(BASE_URL @ ''/'' @ resource, config no_options None)]
   \<and> (t \<noteq> [] \<longrightarrow>
        requests (snd (fetchData shortest fetch resource searchField (Some t) tr)) =
          requests tr @
            [(BASE_URL @ ''/'' @ resource @ ''?'' @ searchField @ ''_like='' @ t,
              config no_options None)])"
  by (simp add: fetchData_def apiClient_requests)

theorem fetchData_endpoint_witness:
  "requests (snd (fetchData unused_printer (refuse () :: (unit, scalar) transport)
        ''users'' ''name'' None [])) =
     [(''https://jsonplaceholder.typicode.com/users'', config no_options None)]
   \<and> requests (snd (fetchData unused_printer (refuse () :: (unit, scalar) transport)
        ''users'' ''name'' (Some ''Lea'') [])) =
     [(''https://jsonplaceholder.typicode.com/users?name_like=Lea'', config no_options None)]"
  using fetchData_endpoint
    [of unused_printer "refuse () :: (unit, scalar) transport" "''users''" "''name''" "[]" "''Lea''"]
  by (simp add: BASE_URL_def)

text \<open>
  C4, as amended. \<open>fetchFilteredData\<close> requests the path of the resource, \<open>?\<close>, and the
  serialised parameters: one per filter entry, the value in its string form, in the order
  in which \<open>Object.entries\<close> enumerates the filter object, which is the insertion order
  whenever no filter key is an array index (keys that are array indices come first, in
  ascending numeric order); then \<open>_sort\<close>, \<open>_order\<close>, \<open>_limit\<close>, \<open>_start\<close>, in this order, for
  each option that is set (to a value that the truthiness test lets through, see C5). For
  the filter \<open>{name: "Lea"}\<close> and the options \<open>{sortBy: "name", order: "asc", limit: 5}\<close> on
  \<open>users\<close> the query string is \<open>name=Lea&_sort=name&_order=asc&_limit=5\<close>. As stated, with
  the insertion order for every filter object, the claim fails at
  \<open>{name: "Lea", "10": "x", "2": "y"}\<close>.
\<close>

theorem fetchFilteredData_query:
  "requests (snd (fetchFilteredData shortest fetch resource filters options tr)) =
     requests tr @
       [(BASE_URL @ ''/'' @ resource @ ''?'' @
           URLSearchParams_toString (queryParams shortest filters options),
         config no_options None)]
   \<and> queryParams shortest filters options =
       map (\<lambda>(field, val). (field, scalar_toString shortest val)) (Object_entries filters)
       @ (if truthy_string (sortBy options) then [(''_sort'', the (sortBy options))] else [])
       @ (if order options \<noteq> None
          then [(''_order'', sort_order_string (the (order options)))] else [])
       @ (if truthy_number (limit options)
          then [(''_limit'', Number_toString shortest (the (limit options)))] else [])
       @ (if truthy_number (start options)
          then [(''_start'', Number_toString shortest (the (start options)))] else [])
   \<and> ((\<forall>field \<in> fst ` set filters. array_index field = None) \<longrightarrow>
        Object_entries filters = filters)
   \<and> requests (snd (fetchFilteredData shortest fetch ''users'' [(''name'', Str ''Lea'')]
         \<lparr>sortBy = Some ''name'', order = Some asc, limit = Some (Finite 5 0), start = None\<rparr>
         tr)) =
     requests tr @
       [(''https://jsonplaceholder.typicode.com/users?name=Lea&_sort=name&_order=asc&_limit=5'',
         config no_options None)]"
proof -
  have shape: "queryParams shortest filters options =
       map (\<lambda>(field, val). (field, scalar_toString shortest val)) (Object_entries filters)
       @ (if truthy_string (sortBy options) then [(''_sort'', the (sortBy options))] else [])
       @ (if order options \<noteq> None
          then [(''_order'', sort_order_string (the (order options)))] else [])
       @ (if truthy_number (limit options)
          then [(''_limit'', Number_toString shortest (the (limit options)))] else [])
       @ (if truthy_number (start options)
          then [(''_start'', Number_toString shortest (the (start options)))] else [])"
    unfolding queryParams_def Let_def fold_append_param by (simp add: append_param_def)
  have issued: "requests (snd (fetchFilteredData shortest fetch resource filters options tr)) =
     requests tr @
       [(BASE_URL @ ''/'' @ resource @ ''?'' @
           URLSearchParams_toString (queryParams shortest filters options),
         config no_options None)]"
    by (simp add: fetchFilteredData_def apiClient_requests)
  have kept: "(\<forall>field \<in> fst ` set filters. array_index field = None) \<longrightarrow>
        Object_entries filters = filters"
    by (simp add: Object_entries_plain)
  have lea: "URLSearchParams_toString (queryParams shortest [(''name'', Str ''Lea'')]
         \<lparr>sortBy = Some ''name'', order = Some asc, limit = Some (Finite 5 0), start = None\<rparr>) =
       ''name=Lea&_sort=name&_order=asc&_limit=5''"
    by code_simp
  have example: "requests (snd (fetchFilteredData shortest fetch ''users'' [(''name'', Str ''Lea'')]
         \<lparr>sortBy = Some ''name'', order = Some asc, limit = Some (Finite 5 0), start = None\<rparr>
         tr)) =
     requests tr @
       [(''https://jsonplaceholder.typicode.com/users?name=Lea&_sort=name&_order=asc&_limit=5'',
         config no_options None)]"
    by (simp add: fetchFilteredData_def apiClient_requests lea BASE_URL_def)
  from issued shape kept example show ?thesis by blast
qed

theorem fetchFilteredData_query_witness:
  "queryParams unused_printer [(''userId'', Num (Finite 3 0)), (''title'', Str ''a b'')]
     \<lparr>sortBy = Some ''id'', order = Some desc, limit = Some (Finite 10 0),
      start = Some (Finite 20 0)\<rparr> =
     [(''userId'', ''3''), (''title'', ''a b''), (''_sort'', ''id''), (''_order'', ''desc''),
      (''_limit'', ''10''), (''_start'', ''20'')]
   \<and> URLSearchParams_toString
       [(''userId'', ''3''), (''title'', ''a b''), (''_sort'', ''id''), (''_order'', ''desc''),
        (''_limit'', ''10''), (''_start'', ''20'')] =
     ''userId=3&title=a+b&_sort=id&_order=desc&_limit=10&_start=20''"
proof -
  let ?filters = "[(''userId'', Num (Finite 3 0)), (''title'', Str ''a b'')]"
  let ?options = "\<lparr>sortBy = Some ''id'', order = Some desc, limit = Some (Finite 10 0),
      start = Some (Finite 20 0)\<rparr>"
  have keys: "\<forall>field \<in> fst ` set ?filters. array_index field = None"
    by (simp add: array_index_def is_digit_def)
  have n: "Number_toString unused_printer (Finite 3 0) = ''3''"
    "Number_toString unused_printer (Finite 10 0) = ''10''"
    "Number_toString unused_printer (Finite 20 0) = ''20''"
    by code_simp+
  from fetchFilteredData_query
    [of unused_printer "refuse () :: (unit, scalar) transport" "''posts''" ?filters ?options "[]"]
  have shape: "queryParams unused_printer ?filters ?options =
       map (\<lambda>(field, val). (field, scalar_toString unused_printer val)) (Object_entries ?filters)
       @ (if truthy_string (sortBy ?options) then [(''_sort'', the (sortBy ?options))] else [])
       @ (if order ?options \<noteq> None
          then [(''_order'', sort_order_string (the (order ?options)))] else [])
       @ (if truthy_number (limit ?options)
          then [(''_limit'', Number_toString unused_printer (the (limit ?options)))] else [])
       @ (if truthy_number (start ?options)
          then [(''_start'', Number_toString unused_printer (the (start ?options)))] else [])"
    and kept: "(\<forall>field \<in> fst ` set ?filters. array_index field = None) \<longrightarrow>
        Object_entries ?filters = ?filters"
    by blast+
  from kept keys have "Object_entries ?filters = ?filters"
    by blast
  with shape have collected: "queryParams unused_printer ?filters ?options =
     [(''userId'', ''3''), (''title'', ''a b''), (''_sort'', ''id''), (''_order'', ''desc''),
      (''_limit'', ''10''), (''_start'', ''20'')]"
    by (simp add: truthy_string_def truthy_number_def n del: Number_toString.simps)
  have serialised: "URLSearchParams_toString
       [(''userId'', ''3''), (''title'', ''a b''), (''_sort'', ''id''), (''_order'', ''desc''),
        (''_limit'', ''10''), (''_start'', ''20'')] =
     ''userId=3&title=a+b&_sort=id&_order=desc&_limit=10&_start=20''"
    by code_simp
  from collected serialised show ?thesis
    by blast
qed

theorem fetchFilteredData_query_order_counterexample:
  "queryParams unused_printer [(''name'', Str ''Lea''), (''10'', Str ''x''), (''2'', Str ''y'')]
     no_filter_options =
     [(''2'', ''y''), (''10'', ''x''), (''name'', ''Lea'')]
   \<and> URLSearchParams_toString
       (queryParams unused_printer [(''name'', Str ''Lea''), (''10'', Str ''x''), (''2'', Str ''y'')]
          no_filter_options) =
     ''2=y&10=x&name=Lea''"
  by code_simp

text \<open>
  C5. An option that is present but falsy is left out as if it were unset: with limit
  \<open>0\<close>, with start \<open>0\<close>, with the empty sort field, the call is the call with that option
  unset; so it is with the other falsy numbers, negative zero and not-a-number.
\<close>

theorem fetchFilteredData_falsy_option_omitted:
  "fetchFilteredData shortest fetch resource filters (options\<lparr>limit := Some (Finite 0 e)\<rparr>) tr =
     fetchFilteredData shortest fetch resource filters (options\<lparr>limit := None\<rparr>) tr
   \<and> fetchFilteredData shortest fetch resource filters (options\<lparr>start := Some (Finite 0 e)\<rparr>) tr =
     fetchFilteredData shortest fetch resource filters (options\<lparr>start := None\<rparr>) tr
   \<and> fetchFilteredData shortest fetch resource filters (options\<lparr>sortBy := Some []\<rparr>) tr =
     fetchFilteredData shortest fetch resource filters (options\<lparr>sortBy := None\<rparr>) tr
   \<and> fetchFilteredData shortest fetch resource filters (options\<lparr>limit := Some NegZero\<rparr>) tr =
     fetchFilteredData shortest fetch resource filters (options\<lparr>limit := None\<rparr>) tr
   \<and> fetchFilteredData shortest fetch resource filters (options\<lparr>limit := Some NaN\<rparr>) tr =
     fetchFilteredData shortest fetch resource filters (options\<lparr>limit := None\<rparr>) tr
   \<and> fetchFilteredData shortest fetch resource filters (options\<lparr>start := Some NegZero\<rparr>) tr =
     fetchFilteredData shortest fetch resource filters (options\<lparr>start := None\<rparr>) tr
   \<and> fetchFilteredData shortest fetch resource filters (options\<lparr>start := Some NaN\<rparr>) tr =
     fetchFilteredData shortest fetch resource filters (options\<lparr>start := None\<rparr>) tr"
  by (simp add: fetchFilteredData_def queryParams_def Let_def truthy_number_def truthy_string_def)

theorem fetchFilteredData_falsy_option_omitted_witness:
  "requests (snd (fetchFilteredData unused_printer (refuse () :: (unit, scalar) transport)
      ''users'' [] \<lparr>sortBy = None, order = None, limit = Some (Finite 0 0), start = None\<rparr> [])) =
     [(''https://jsonplaceholder.typicode.com/users?'', config no_options None)]"
proof -
  have unset: "requests (snd (fetchFilteredData unused_printer
      (refuse () :: (unit, scalar) transport) ''users'' []
      \<lparr>sortBy = None, order = None, limit = None, start = None\<rparr> [])) =
     [(''https://jsonplaceholder.typicode.com/users?'', config no_options None)]"
    by (simp add: fetchFilteredData_def apiClient_requests queryParams_def truthy_number_def
        truthy_string_def URLSearchParams_toString_def BASE_URL_def Object_entries_def)
  show ?thesis
    using fetchFilteredData_falsy_option_omitted
      [of unused_printer "refuse () :: (unit, scalar) transport" "''users''" "[]" 0
          "\<lparr>sortBy = None, order = None, limit = None, start = None\<rparr>" "[]"]
      unset
    by simp
qed

text \<open>
  C10. With no filter entry and no option that passes the truthiness test,
  \<open>fetchFilteredData\<close> requests the path of the resource followed by a bare \<open>?\<close>, where
  \<open>fetchData\<close> without a search term requests the path alone.
\<close>

theorem fetchFilteredData_empty_query:
  assumes "\<not> truthy_string (sortBy options)"
    and "order options = None"
    and "\<not> truthy_number (limit options)"
    and "\<not> truthy_number (start options)"
  shows "requests (snd (fetchFilteredData shortest fetch resource [] options tr)) =
           requests tr @ [(BASE_URL @ ''/'' @ resource @ ''?'', config no_options None)]
         \<and> requests (snd (fetchData shortest fetch resource searchField None tr)) =
           requests tr @ [(BASE_URL @ ''/'' @ resource, config no_options None)]"
  using assms
  by (simp add: fetchFilteredData_def fetchData_def apiClient_requests queryParams_def
      URLSearchParams_toString_def Object_entries_def)

theorem fetchFilteredData_empty_query_witness:
  "requests (snd (fetchFilteredData unused_printer (refuse () :: (unit, scalar) transport)
      ''posts'' [] \<lparr>sortBy = Some [], order = None, limit = None, start = Some (Finite 0 0)\<rparr>
      [])) =
     [(''https://jsonplaceholder.typicode.com/posts?'', config no_options None)]
   \<and> requests (snd (fetchData unused_printer (refuse () :: (unit, scalar) transport)
      ''posts'' ''title'' None [])) =
     [(''https://jsonplaceholder.typicode.com/posts'', config no_options None)]"
  using fetchFilteredData_empty_query
    [of "\<lparr>sortBy = Some [], order = None, limit = None, start = Some (Finite 0 0)\<rparr>"
        unused_printer "refuse () :: (unit, scalar) transport" "''posts''" "[]" "''title''"]
  by (simp add: truthy_string_def truthy_number_def BASE_URL_def)

text \<open>
  C9. Both helpers call the request executor with no options and no token: the request
  they issue has no method and no body set, its headers are \<open>Content-Type: application/json\<close>
  and nothing else, so it carries no \<open>Authorization\<close> header, whatever the arguments.
\<close>

theorem helpers_send_unauthenticated_requests:
  "(\<exists>endpoint.
      fetchData shortest fetch resource searchField searchTerm tr =
        apiClient shortest fetch endpoint no_options None tr
      \<and> requests (snd (fetchData shortest fetch resource searchField searchTerm tr)) =
        requests tr @
          [(BASE_URL @ endpoint,
            \<lparr>headers = Some [''Content-Type'' \<mapsto> ''application/json''], body = None,
             method = None\<rparr>)])
   \<and> (\<exists>endpoint.
      fetchFilteredData shortest fetch resource filters options tr =
        apiClient shortest fetch endpoint no_options None tr
      \<and> requests (snd (fetchFilteredData shortest fetch resource filters options tr)) =
        requests tr @
          [(BASE_URL @ endpoint,
            \<lparr>headers = Some [''Content-Type'' \<mapsto> ''application/json''], body = None,
             method = None\<rparr>)])
   \<and> [''Content-Type'' \<mapsto> ''application/json''] ''Authorization'' = None
   \<and> [''Content-Type'' \<mapsto> ''application/json''] ''Content-Type'' = Some ''application/json''"
proof -
  have "\<exists>endpoint.
      fetchData shortest fetch resource searchField searchTerm tr =
        apiClient shortest fetch endpoint no_options None tr
      \<and> requests (snd (fetchData shortest fetch resource searchField searchTerm tr)) =
        requests tr @ [(BASE_URL @ endpoint, config no_options None)]"
    by (simp add: fetchData_def Let_def apiClient_requests)
  moreover have "\<exists>endpoint.
      fetchFilteredData shortest fetch resource filters options tr =
        apiClient shortest fetch endpoint no_options None tr
      \<and> requests (snd (fetchFilteredData shortest fetch resource filters options tr)) =
        requests tr @ [(BASE_URL @ endpoint, config no_options None)]"
    by (simp add: fetchFilteredData_def Let_def apiClient_requests)
  ultimately show ?thesis
    by (simp add: config_plain)
qed

theorem helpers_send_unauthenticated_requests_witness:
  "requests (snd (fetchData unused_printer (refuse () :: (unit, scalar) transport)
      ''users'' ''name'' (Some ''Lea'') [])) =
     [(''https://jsonplaceholder.typicode.com/users?name_like=Lea'',
       \<lparr>headers = Some [''Content-Type'' \<mapsto> ''application/json''], body = None,
        method = None\<rparr>)]"
proof -
  have "\<exists>endpoint. requests (snd (fetchData unused_printer
        (refuse () :: (unit, scalar) transport) ''users'' ''name'' (Some ''Lea'') [])) =
       [(BASE_URL @ endpoint,
         \<lparr>headers = Some [''Content-Type'' \<mapsto> ''application/json''], body = None,
          method = None\<rparr>)]"
    using helpers_send_unauthenticated_requests
      [of unused_printer "refuse () :: (unit, scalar) transport" "''users''" "''name''"
          "Some ''Lea''" "[]" "[]" no_filter_options]
    by auto
  moreover have "requests (snd (fetchData unused_printer (refuse () :: (unit, scalar) transport)
        ''users'' ''name'' (Some ''Lea'') [])) =
       [(''https://jsonplaceholder.typicode.com/users?name_like=Lea'', config no_options None)]"
    by (simp add: fetchData_def apiClient_requests BASE_URL_def)
  ultimately show ?thesis
    by auto
qed

section \<open>The user service\<close>

text \<open>
  C8, as amended. \<open>deleteUser\<close> issues one request, with method \<open>DELETE\<close>, to \<open>/users/\<close>
  followed by the string form of the id (its decimal numeral when the id is an integer of
  magnitude up to \<open>2^53 - 1\<close>), with the token if one is given. When the transport answers
  with success and a body that decodes, the call resolves with no value, the body being
  dropped; when it answers with success and a body that does not decode, the call rejects
  with what the decoder threw. As stated, with every successful response resolving, the
  claim fails at a successful response without a decodable body.
\<close>

theorem deleteUser_request_and_result:
  "requests (snd (deleteUser shortest fetch userId authToken tr)) =
     requests tr @
       [(BASE_URL @ ''/users/'' @ Number_toString shortest userId,
         config \<lparr>headers = None, body = None, method = Some ''DELETE''\<rparr> authToken)]
   \<and> method (config \<lparr>headers = None, body = None, method = Some ''DELETE''\<rparr> authToken) =
       Some ''DELETE''
   \<and> (\<bar>n\<bar> \<le> MAX_SAFE_INTEGER \<longrightarrow> Number_toString shortest (Finite n 0) = decimal n)
   \<and> (fetch (BASE_URL @ ''/users/'' @ Number_toString shortest userId)
         (config \<lparr>headers = None, body = None, method = Some ''DELETE''\<rparr> authToken) =
         Inr response
       \<and> ok response \<and> json response = Inr data \<longrightarrow>
       fst (deleteUser shortest fetch userId authToken tr) = Inr ()
       \<and> logged (snd (deleteUser shortest fetch userId authToken tr)) = logged tr)
   \<and> (fetch (BASE_URL @ ''/users/'' @ Number_toString shortest userId)
         (config \<lparr>headers = None, body = None, method = Some ''DELETE''\<rparr> authToken) =
         Inr response
       \<and> ok response \<and> json response = Inl e \<longrightarrow>
       fst (deleteUser shortest fetch userId authToken tr) = Inl (Thrown e))"
proof -
  let ?call = "apiClient shortest fetch (''/users/'' @ Number_toString shortest userId)
      \<lparr>headers = None, body = None, method = Some ''DELETE''\<rparr> authToken tr"
  have events: "snd (deleteUser shortest fetch userId authToken tr) = snd ?call"
    by (simp add: deleteUser_def split: prod.split sum.split)
  have result: "fst (deleteUser shortest fetch userId authToken tr) =
      (case fst ?call of Inl error \<Rightarrow> Inl error | Inr data \<Rightarrow> Inr ())"
    by (simp add: deleteUser_def split: prod.split sum.split)
  have sent: "requests (snd (deleteUser shortest fetch userId authToken tr)) =
     requests tr @
       [(BASE_URL @ ''/users/'' @ Number_toString shortest userId,
         config \<lparr>headers = None, body = None, method = Some ''DELETE''\<rparr> authToken)]"
    by (simp add: events apiClient_requests)
  have verb: "method (config \<lparr>headers = None, body = None, method = Some ''DELETE''\<rparr> authToken) =
       Some ''DELETE''"
    by (simp add: config_def)
  have path: "\<bar>n\<bar> \<le> MAX_SAFE_INTEGER \<longrightarrow> Number_toString shortest (Finite n 0) = decimal n"
    by (simp add: safe_integer_decimal)
  have resolved: "fetch (BASE_URL @ ''/users/'' @ Number_toString shortest userId)
         (config \<lparr>headers = None, body = None, method = Some ''DELETE''\<rparr> authToken) =
         Inr response
       \<and> ok response \<and> json response = Inr data \<longrightarrow>
       fst (deleteUser shortest fetch userId authToken tr) = Inr ()
       \<and> logged (snd (deleteUser shortest fetch userId authToken tr)) = logged tr"
    by (simp add: events result apiClient_events apiClient_result attempt_def logged_append)
  have rejected: "fetch (BASE_URL @ ''/users/'' @ Number_toString shortest userId)
         (config \<lparr>headers = None, body = None, method = Some ''DELETE''\<rparr> authToken) =
         Inr response
       \<and> ok response \<and> json response = Inl e \<longrightarrow>
       fst (deleteUser shortest fetch userId authToken tr) = Inl (Thrown e)"
    by (simp add: result apiClient_result attempt_def)
  from sent verb path resolved rejected show ?thesis
    by blast
qed

theorem deleteUser_request_and_result_witness:
  "requests (snd (deleteUser unused_printer
      (respond True (Finite 200 0) (Inr (Str ''{}'')) :: (string, scalar) transport)
      (Finite 7 0) (Some ''s3cret'') [])) =
     [(''https://jsonplaceholder.typicode.com/users/7'',
       \<lparr>headers = Some [''Content-Type'' \<mapsto> ''application/json'',
                         ''Authorization'' \<mapsto> ''Bearer s3cret''],
        body = None, method = Some ''DELETE''\<rparr>)]
   \<and> fst (deleteUser unused_printer
      (respond True (Finite 200 0) (Inr (Str ''{}'')) :: (string, scalar) transport)
      (Finite 7 0) (Some ''s3cret'') []) = Inr ()
   \<and> fst (deleteUser unused_printer
      (respond True (Finite 204 0) (Inl ''Unexpected end of JSON input'')
        :: (string, scalar) transport)
      (Finite 7 0) None []) = Inl (Thrown ''Unexpected end of JSON input'')
   \<and> Number_toString unused_printer (Finite 7 0) = decimal 7"
proof -
  let ?answers = "respond True (Finite 200 0) (Inr (Str ''{}'')) :: (string, scalar) transport"
  let ?empty = "respond True (Finite 204 0) (Inl ''Unexpected end of JSON input'')
      :: (string, scalar) transport"
  have small: "\<bar>7\<bar> \<le> MAX_SAFE_INTEGER"
    by (simp add: MAX_SAFE_INTEGER_def)
  have a: "requests (snd (deleteUser unused_printer ?answers (Finite 7 0) (Some ''s3cret'') [])) =
     [(''https://jsonplaceholder.typicode.com/users/7'',
       \<lparr>headers = Some [''Content-Type'' \<mapsto> ''application/json'',
                         ''Authorization'' \<mapsto> ''Bearer s3cret''],
        body = None, method = Some ''DELETE''\<rparr>)]
     \<and> fst (deleteUser unused_printer ?answers (Finite 7 0) (Some ''s3cret'') []) = Inr ()
     \<and> Number_toString unused_printer (Finite 7 0) = decimal 7"
    using small deleteUser_request_and_result
      [of unused_printer ?answers "Finite 7 0" "Some ''s3cret''" "[]" 7
          "\<lparr>ok = True, status = Finite 200 0, json = Inr (Str ''{}'')\<rparr>" "Str ''{}''"
          "''none''"]
    by (simp add: respond_def BASE_URL_def id_7 config_def truthy_string_def
        del: Number_toString.simps)
  have b: "fst (deleteUser unused_printer ?empty (Finite 7 0) None []) =
      Inl (Thrown ''Unexpected end of JSON input'')"
    using deleteUser_request_and_result
      [of unused_printer ?empty "Finite 7 0" None "[]" 7
          "\<lparr>ok = True, status = Finite 204 0, json = Inl ''Unexpected end of JSON input''\<rparr>"
          "Str ''{}''" "''Unexpected end of JSON input''"]
    by (simp add: respond_def del: Number_toString.simps)
  from a b show ?thesis
    by blast
qed

theorem deleteUser_undecodable_body_counterexample:
  "fst (deleteUser unused_printer
      (respond True (Finite 204 0) (Inl ''Unexpected end of JSON input'')
        :: (string, scalar) transport)
      (Finite 7 0) None []) = Inl (Thrown ''Unexpected end of JSON input'')
   \<and> fst (deleteUser unused_printer
      (respond True (Finite 204 0) (Inl ''Unexpected end of JSON input'')
        :: (string, scalar) transport)
      (Finite 7 0) None []) \<noteq> Inr ()"
  by (simp add: deleteUser_def apiClient_def attempt_def respond_def split: prod.split)

end
